theory Spec2Isabelle
  imports Complex_Main
begin

section \<open>Flow map painter: numbers, vectors and errors\<close>

text \<open>
  The add-on computes with numpy floats and with the integer pixel coordinates of
  the host's events. Floats are modelled as real numbers: rounding is not part of the
  model. Where the source tests for NaN, the colour channels are values of
  \<open>pyfloat\<close>, a real number or one of the three special float values.
\<close>

type_synonym vec2 = "real \<times> real"
type_synonym vec3 = "real \<times> real \<times> real"
type_synonym pixel = "int \<times> int"

datatype error =
  TypeError | AttributeError | IndexError | KeyError | ValueError
  | OverflowError | ZeroDivisionError | ReferenceError

datatype pyfloat = Fin real | PosInf | NegInf | NaN

fun isnan :: "pyfloat \<Rightarrow> bool" where
  "isnan NaN = True"
| "isnan _ = False"

text \<open>\<^verbatim>\<open>def lerp(mix, a, b): return (b - a) * mix + a\<close>\<close>

definition lerp :: "real \<Rightarrow> real \<Rightarrow> real \<Rightarrow> real" where
  "lerp mix a b = (b - a) * mix + a"

text \<open>\<^verbatim>\<open>numpy.linalg.norm\<close> of a two- and of a three-component array.\<close>

definition norm2 :: "vec2 \<Rightarrow> real" where
  "norm2 v = sqrt ((fst v)\<^sup>2 + (snd v)\<^sup>2)"

definition norm3 :: "vec3 \<Rightarrow> real" where
  "norm3 v = sqrt ((fst v)\<^sup>2 + (fst (snd v))\<^sup>2 + (snd (snd v))\<^sup>2)"

definition psub :: "pixel \<Rightarrow> pixel \<Rightarrow> vec2" where
  "psub a b = (real_of_int (fst a - fst b), real_of_int (snd a - snd b))"

definition vsub2 :: "vec2 \<Rightarrow> vec2 \<Rightarrow> vec2" where
  "vsub2 a b = (fst a - fst b, snd a - snd b)"

definition vsub3 :: "vec3 \<Rightarrow> vec3 \<Rightarrow> vec3" where
  "vsub3 a b = (fst a - fst b, fst (snd a) - fst (snd b), snd (snd a) - snd (snd b))"

definition vadd3 :: "vec3 \<Rightarrow> vec3 \<Rightarrow> vec3" where
  "vadd3 a b = (fst a + fst b, fst (snd a) + fst (snd b), snd (snd a) + snd (snd b))"

text \<open>Python's \<^verbatim>\<open>int(x)\<close> on a finite float truncates towards zero.\<close>

definition py_int :: "real \<Rightarrow> int" where
  "py_int x = (if 0 \<le> x then \<lfloor>x\<rfloor> else \<lceil>x\<rceil>)"

section \<open>The host's data blocks and the temporary object\<close>

text \<open>
  \<^verbatim>\<open>bpy.data.meshes\<close> and \<^verbatim>\<open>bpy.data.objects\<close> are collections keyed by the
  data block's name. A mesh holds what the UV lookup reads: vertex coordinates,
  polygons (vertex indices and loop indices) and the active UV layer, if there is one.
\<close>

type_synonym name = string

record polygon =
  poly_vertices :: "nat list"
  loop_indices :: "nat list"

record mesh =
  mesh_vertices :: "vec3 list"
  polygons :: "polygon list"
  uv_active :: "vec2 list option"

datatype object_type = MESH | OTHER_OBJECT

record matrix =
  mat_apply :: "vec3 \<Rightarrow> vec3"
  mat_inverse :: "(vec3 \<Rightarrow> vec3) option"

record object =
  ob_type :: object_type
  ob_data :: name
  ob_matrix_world :: matrix
  ob_modifiers :: "string list"
  ob_linked :: bool
  ob_hidden :: bool

record bpy_data =
  meshes :: "name \<rightharpoonup> mesh"
  objects :: "name \<rightharpoonup> object"

text \<open>
  \<^verbatim>\<open>collection[name]\<close> raises KeyError for an unknown name, and
  \<^verbatim>\<open>collection.remove(block)\<close> raises for a block that is no longer in the
  collection; \<^verbatim>\<open>collection.get(name)\<close> is the map itself.
\<close>

definition meshes_getitem :: "bpy_data \<Rightarrow> name \<Rightarrow> error + name" where
  "meshes_getitem d n = (case meshes d n of None \<Rightarrow> Inl KeyError | Some _ \<Rightarrow> Inr n)"

definition objects_getitem :: "bpy_data \<Rightarrow> name \<Rightarrow> error + name" where
  "objects_getitem d n = (case objects d n of None \<Rightarrow> Inl KeyError | Some _ \<Rightarrow> Inr n)"

definition meshes_remove :: "name \<Rightarrow> bpy_data \<Rightarrow> error + bpy_data" where
  "meshes_remove n d =
     (case meshes d n of
        None \<Rightarrow> Inl ReferenceError
      | Some _ \<Rightarrow> Inr (d\<lparr>meshes := (meshes d)(n := None)\<rparr>))"

definition objects_remove :: "name \<Rightarrow> bpy_data \<Rightarrow> error + bpy_data" where
  "objects_remove n d =
     (case objects d n of
        None \<Rightarrow> Inl ReferenceError
      | Some _ \<Rightarrow> Inr (d\<lparr>objects := (objects d)(n := None)\<rparr>))"

text \<open>
  \<^verbatim>\<open>
  def remove_temp_obj():
      if bpy.data.meshes.get("FLOWMAP_temp_mesh"):
          bpy.data.meshes.remove(bpy.data.meshes["FLOWMAP_temp_mesh"])
      if bpy.data.objects.get("FLOWMAP_temp_obj"):
          bpy.data.objects.remove(bpy.data.objects["FLOWMAP_temp_obj"])
      return None
  \<close>
\<close>

definition remove_temp_mesh_step :: "bpy_data \<Rightarrow> error + bpy_data" where
  "remove_temp_mesh_step d =
     (case meshes d ''FLOWMAP_temp_mesh'' of
        None \<Rightarrow> Inr d
      | Some _ \<Rightarrow>
          (case meshes_getitem d ''FLOWMAP_temp_mesh'' of
             Inl e \<Rightarrow> Inl e
           | Inr m \<Rightarrow> meshes_remove m d))"

definition remove_temp_object_step :: "bpy_data \<Rightarrow> error + bpy_data" where
  "remove_temp_object_step d =
     (case objects d ''FLOWMAP_temp_obj'' of
        None \<Rightarrow> Inr d
      | Some _ \<Rightarrow>
          (case objects_getitem d ''FLOWMAP_temp_obj'' of
             Inl e \<Rightarrow> Inl e
           | Inr ob \<Rightarrow> objects_remove ob d))"

definition remove_temp_obj :: "bpy_data \<Rightarrow> error + bpy_data" where
  "remove_temp_obj d =
     (case remove_temp_mesh_step d of
        Inl e \<Rightarrow> Inl e
      | Inr d1 \<Rightarrow> remove_temp_object_step d1)"

text \<open>
  \<open>triangulate_object\<close> creates three data blocks whose names the source leaves to
  the host: the copy of the template object, the copy of its mesh, and the mesh that
  \<^verbatim>\<open>bpy.data.meshes.new_from_object\<close> returns. The host's choice is a parameter,
  \<open>host_names\<close>. Only \<^verbatim>\<open>bpy.data.objects.new\<close> is given a name by the source,
  \<^verbatim>\<open>"FLOWMAP_temp_obj"\<close>; the host uses it when it is free and its own
  alternative otherwise. \<open>triangulated\<close> is the host's evaluation of the
  TRIANGULATE modifier on a mesh. The template is a mesh object: its data is looked
  up among the meshes. Removing an object leaves its mesh among the meshes.
  \<^verbatim>\<open>
  def triangulate_object(template_ob):
      remove_temp_obj()
      ob = template_ob.copy()
      ob.data = ob.data.copy()
      ob.modifiers.new("triangulate", 'TRIANGULATE')
      bpy.context.collection.objects.link(ob)
      depsgraph = bpy.context.evaluated_depsgraph_get()
      object_eval = ob.evaluated_get(depsgraph)
      mesh_from_eval = bpy.data.meshes.new_from_object(object_eval)
      ob.data = mesh_from_eval
      tri_obj = bpy.data.objects.new(name="FLOWMAP_temp_obj", object_data=mesh_from_eval)
      bpy.context.collection.objects.link(tri_obj)
      tri_obj.matrix_world = template_ob.matrix_world
      bpy.data.objects.remove(ob, do_unlink=True)
      tri_obj.hide_set(True)
      return tri_obj
  \<close>
\<close>

record host_names =
  ob_copy_name :: name
  data_copy_name :: name
  eval_mesh_name :: name
  tri_obj_alt_name :: name

definition objects_new :: "name \<Rightarrow> name \<Rightarrow> object \<Rightarrow> bpy_data \<Rightarrow> name \<times> bpy_data" where
  "objects_new requested alt ob d =
     (let n = (case objects d requested of None \<Rightarrow> requested | Some _ \<Rightarrow> alt)
      in (n, d\<lparr>objects := (objects d)(n \<mapsto> ob)\<rparr>))"

definition triangulate_object ::
  "(mesh \<Rightarrow> mesh) \<Rightarrow> host_names \<Rightarrow> name \<Rightarrow> bpy_data \<Rightarrow> error + (name \<times> bpy_data)" where
  "triangulate_object triangulated hn template_ob d =
     (case remove_temp_obj d of
        Inl e \<Rightarrow> Inl e
      | Inr d1 \<Rightarrow>
          (case objects d1 template_ob of
             None \<Rightarrow> Inl ReferenceError
           | Some template \<Rightarrow>
               (case meshes d1 (ob_data template) of
                  None \<Rightarrow> Inl AttributeError
                | Some template_mesh \<Rightarrow>
                    (let ob = template\<lparr>ob_data := data_copy_name hn,
                                       ob_modifiers := ob_modifiers template @ [''triangulate''],
                                       ob_linked := True\<rparr>;
                         d2 = d1\<lparr>meshes := (meshes d1)(data_copy_name hn \<mapsto> template_mesh),
                                 objects := (objects d1)(ob_copy_name hn \<mapsto> ob)\<rparr>;
                         mesh_from_eval = triangulated template_mesh;
                         d3 = d2\<lparr>meshes := (meshes d2)(eval_mesh_name hn \<mapsto> mesh_from_eval),
                                 objects := (objects d2)
                                   (ob_copy_name hn \<mapsto> ob\<lparr>ob_data := eval_mesh_name hn\<rparr>)\<rparr>;
                         (tri_obj, d4) =
                           objects_new ''FLOWMAP_temp_obj'' (tri_obj_alt_name hn)
                             \<lparr>ob_type = MESH, ob_data = eval_mesh_name hn,
                              ob_matrix_world = ob_matrix_world template,
                              ob_modifiers = [], ob_linked = True, ob_hidden = True\<rparr> d3
                     in (case objects_remove (ob_copy_name hn) d4 of
                           Inl e \<Rightarrow> Inl e
                         | Inr d5 \<Rightarrow> Inr (tri_obj, d5))))))"

section \<open>Geometry sampler\<close>

text \<open>
  The context of a call: what the source reads from \<^verbatim>\<open>bpy.context\<close>, from
  \<^verbatim>\<open>view3d_utils\<close> and from \<^verbatim>\<open>mathutils\<close>. The functions of the host are
  fields, so that every theorem holds for any host.
\<close>

datatype space_type = uv_space | object_space | world_space

record tri_object =
  tri_mesh :: mesh
  ray_cast :: "vec3 \<Rightarrow> vec3 \<Rightarrow> real \<Rightarrow> bool \<times> vec3 \<times> vec3 \<times> nat"

record context3d =
  region_2d_to_vector_3d :: "pixel \<Rightarrow> vec3"
  region_2d_to_origin_3d :: "pixel \<Rightarrow> vec3"
  barycentric_transform :: "vec3 \<Rightarrow> vec3 \<Rightarrow> vec3 \<Rightarrow> vec3 \<Rightarrow> vec3 \<Rightarrow> vec3 \<Rightarrow> vec3 \<Rightarrow> vec3"
  active_type :: object_type
  active_matrix_world :: matrix
  flowmap_object :: "matrix option"
  flowmap_trace_distance :: real
  flowmap_space_type :: space_type
  area_x :: int
  area_y :: int

text \<open>\<^verbatim>\<open>Matrix.inverted()\<close> raises ValueError when the matrix has no inverse.\<close>

definition inverted :: "matrix \<Rightarrow> error + matrix" where
  "inverted m =
     (case mat_inverse m of
        None \<Rightarrow> Inl ValueError
      | Some f \<Rightarrow> Inr \<lparr>mat_apply = f, mat_inverse = Some (mat_apply m)\<rparr>)"

text \<open>
  \<^verbatim>\<open>obj_ray_cast(context, area_pos, obj, matrix)\<close>: the ray of the viewport through
  the pixel, moved into object space, cast on \<open>obj\<close>; the hit, its normal and its face
  index, or three times \<open>None\<close>.
\<close>

definition obj_ray_cast ::
  "context3d \<Rightarrow> pixel \<Rightarrow> tri_object \<Rightarrow> matrix \<Rightarrow> error + (vec3 option \<times> vec3 option \<times> nat option)" where
  "obj_ray_cast ctx area_pos obj m =
     (let view_vector = region_2d_to_vector_3d ctx area_pos;
          ray_origin = region_2d_to_origin_3d ctx area_pos;
          ray_target = vadd3 ray_origin view_vector
      in case inverted m of
           Inl e \<Rightarrow> Inl e
         | Inr matrix_inv \<Rightarrow>
             (let ray_origin_obj = mat_apply matrix_inv ray_origin;
                  ray_target_obj = mat_apply matrix_inv ray_target;
                  ray_direction_obj = vsub3 ray_target_obj ray_origin_obj
              in case ray_cast obj ray_origin_obj ray_direction_obj (flowmap_trace_distance ctx) of
                   (success, location, normal, face_index) \<Rightarrow>
                     if success then Inr (Some location, Some normal, Some face_index)
                     else Inr (None, None, None)))"

text \<open>
  \<^verbatim>\<open>line_trace_for_pos\<close> returns a pair for a mesh and falls off its end, returning
  a bare \<open>None\<close>, for any other active object: the outer option is that bare
  \<open>None\<close>.
\<close>

definition line_trace_for_pos ::
  "context3d \<Rightarrow> pixel \<Rightarrow> tri_object \<Rightarrow> error + (vec3 option \<times> vec3 option) option" where
  "line_trace_for_pos ctx area_pos tri_obj =
     (let m = active_matrix_world ctx
      in if active_type ctx = MESH then
           (case obj_ray_cast ctx area_pos tri_obj m of
              Inl e \<Rightarrow> Inl e
            | Inr (hit, normal, face_index) \<Rightarrow>
                (case hit of
                   Some h \<Rightarrow> Inr (Some (Some h, Some (mat_apply m h)))
                 | None \<Rightarrow> Inr (Some (None, None))))
         else Inr None)"

text \<open>
  The loop of \<^verbatim>\<open>pos_to_uv_co\<close> over \<^verbatim>\<open>zip(face.vertices, face.loop_indices)\<close>.
  Each round reads \<^verbatim>\<open>obj.data.uv_layers.active.data[loop_idx].uv\<close> first: with no
  active layer, \<^verbatim>\<open>active\<close> is \<open>None\<close> and the attribute access raises.
\<close>

fun face_loop :: "mesh \<Rightarrow> matrix \<Rightarrow> (nat \<times> nat) list \<Rightarrow> error + (vec3 list \<times> vec3 list)" where
  "face_loop me mw [] = Inr ([], [])"
| "face_loop me mw ((vert_idx, loop_idx) # rest) =
     (case uv_active me of
        None \<Rightarrow> Inl AttributeError
      | Some uvs \<Rightarrow>
          if length uvs \<le> loop_idx then Inl IndexError
          else if length (mesh_vertices me) \<le> vert_idx then Inl IndexError
          else (case face_loop me mw rest of
                  Inl e \<Rightarrow> Inl e
                | Inr (face_verts, uv_verts) \<Rightarrow>
                    Inr (mat_apply mw (mesh_vertices me ! vert_idx) # face_verts,
                         (fst (uvs ! loop_idx), snd (uvs ! loop_idx), 0) # uv_verts)))"

definition pos_to_uv_co :: "context3d \<Rightarrow> tri_object \<Rightarrow> matrix \<Rightarrow> vec3 \<Rightarrow> nat \<Rightarrow> error + vec3" where
  "pos_to_uv_co ctx obj matrix_world world_pos face_index =
     (if length (polygons (tri_mesh obj)) \<le> face_index then Inl IndexError
      else let face = polygons (tri_mesh obj) ! face_index
           in case face_loop (tri_mesh obj) matrix_world
                     (zip (poly_vertices face) (loop_indices face)) of
                Inl e \<Rightarrow> Inl e
              | Inr (face_verts, uv_verts) \<Rightarrow>
                  (case (face_verts, uv_verts) of
                     (a1 # a2 # a3 # _, b1 # b2 # b3 # _) \<Rightarrow>
                       Inr (barycentric_transform ctx world_pos a1 a2 a3 b1 b2 b3)
                   | _ \<Rightarrow> Inl IndexError))"

text \<open>\<^verbatim>\<open>line_trace_for_uv\<close> returns \<^verbatim>\<open>(uv_co, hit)\<close>.\<close>

definition line_trace_for_uv ::
  "context3d \<Rightarrow> pixel \<Rightarrow> tri_object \<Rightarrow> error + (vec3 option \<times> vec3 option)" where
  "line_trace_for_uv ctx area_pos tri_obj =
     (let m = active_matrix_world ctx
      in if active_type ctx = MESH then
           (case obj_ray_cast ctx area_pos tri_obj m of
              Inl e \<Rightarrow> Inl e
            | Inr (hit, normal, face_index) \<Rightarrow>
                (case (hit, face_index) of
                   (Some h, Some fi) \<Rightarrow>
                     (case pos_to_uv_co ctx tri_obj (active_matrix_world ctx) (mat_apply m h) fi of
                        Inl e \<Rightarrow> Inl e
                      | Inr uv_co \<Rightarrow> Inr (Some uv_co, Some h))
                 | _ \<Rightarrow> Inr (None, hit)))
         else Inr (None, None))"

section \<open>Direction encoder\<close>

text \<open>
  The three encoders of the 3D viewport return \<^verbatim>\<open>(direction_color, location)\<close>,
  both \<open>None\<close> when a trace misses or the two positions coincide.
\<close>

definition get_uv_space_direction_color ::
  "context3d \<Rightarrow> pixel \<Rightarrow> pixel \<Rightarrow> tri_object \<Rightarrow> error + (real list option \<times> vec3 option)" where
  "get_uv_space_direction_color ctx area_pos area_prev_pos tri_obj =
     (case line_trace_for_uv ctx area_pos tri_obj of
        Inl e \<Rightarrow> Inl e
      | Inr (uv_pos, hit_world) \<Rightarrow>
          (case line_trace_for_uv ctx area_prev_pos tri_obj of
             Inl e \<Rightarrow> Inl e
           | Inr (uv_prev_pos, _) \<Rightarrow>
               (case (uv_pos, uv_prev_pos) of
                  (Some (u, v, _), Some (pu, pv, _)) \<Rightarrow>
                    (let uv_direction_vector = vsub2 (u, v) (pu, pv);
                         norm_factor = norm2 uv_direction_vector
                     in if norm_factor = 0 then Inr (None, None)
                        else let n = (fst uv_direction_vector / norm_factor,
                                      snd uv_direction_vector / norm_factor)
                             in Inr (Some [(fst n + 1) * 0.5, (snd n + 1) * 0.5, 0], hit_world))
                | _ \<Rightarrow> Inr (None, None))))"

definition color_of_direction3 :: "vec3 \<Rightarrow> real \<Rightarrow> real list" where
  "color_of_direction3 v norm_factor =
     [(fst v / norm_factor + 1) * 0.5,
      (fst (snd v) / norm_factor + 1) * 0.5,
      (snd (snd v) / norm_factor + 1) * 0.5]"

definition get_obj_space_direction_color ::
  "context3d \<Rightarrow> pixel \<Rightarrow> pixel \<Rightarrow> tri_object \<Rightarrow> error + (real list option \<times> vec3 option)" where
  "get_obj_space_direction_color ctx area_pos area_prev_pos tri_obj =
     (case line_trace_for_pos ctx area_pos tri_obj of
        Inl e \<Rightarrow> Inl e
      | Inr None \<Rightarrow> Inl TypeError
      | Inr (Some (location, hit_world)) \<Rightarrow>
          (case line_trace_for_pos ctx area_prev_pos tri_obj of
             Inl e \<Rightarrow> Inl e
           | Inr None \<Rightarrow> Inl TypeError
           | Inr (Some (_, prev_hit_world)) \<Rightarrow>
               (case (hit_world, prev_hit_world) of
                  (Some hw, Some phw) \<Rightarrow>
                    (let obj = (case flowmap_object ctx of
                                  None \<Rightarrow> active_matrix_world ctx
                                | Some m \<Rightarrow> m)
                     in case inverted obj of
                          Inl e \<Rightarrow> Inl e
                        | Inr m \<Rightarrow>
                            (let world_direction_vector = vsub3 (mat_apply m hw) (mat_apply m phw);
                                 norm_factor = norm3 world_direction_vector
                             in if norm_factor = 0 then Inr (None, None)
                                else Inr (Some (color_of_direction3 world_direction_vector norm_factor),
                                          location)))
                | _ \<Rightarrow> Inr (None, None))))"

definition get_world_space_direction_color ::
  "context3d \<Rightarrow> pixel \<Rightarrow> pixel \<Rightarrow> tri_object \<Rightarrow> error + (real list option \<times> vec3 option)" where
  "get_world_space_direction_color ctx area_pos area_prev_pos tri_obj =
     (case line_trace_for_pos ctx area_pos tri_obj of
        Inl e \<Rightarrow> Inl e
      | Inr None \<Rightarrow> Inl TypeError
      | Inr (Some (location, hit_world)) \<Rightarrow>
          (case line_trace_for_pos ctx area_prev_pos tri_obj of
             Inl e \<Rightarrow> Inl e
           | Inr None \<Rightarrow> Inl TypeError
           | Inr (Some (_, prev_hit_world)) \<Rightarrow>
               (case (hit_world, prev_hit_world) of
                  (Some hw, Some phw) \<Rightarrow>
                    (let world_direction_vector = vsub3 hw phw;
                         norm_factor = norm3 world_direction_vector
                     in if norm_factor = 0 then Inr (None, None)
                        else Inr (Some (color_of_direction3 world_direction_vector norm_factor),
                                  location))
                | _ \<Rightarrow> Inr (None, None))))"

text \<open>
  \<^verbatim>\<open>FLOWMAP_OT_image_editor.get_direction_color\<close>: the screen-space encoder. For
  a zero norm it takes the direction \<^verbatim>\<open>[0, 0]\<close> and still returns a colour.
\<close>

definition image_editor_get_direction_color ::
  "pixel \<Rightarrow> pixel \<Rightarrow> error + (real list option \<times> vec3 option)" where
  "image_editor_get_direction_color mouse_position mouse_prev_position =
     (let mouse_direction_vector = psub mouse_position mouse_prev_position;
          norm_factor = norm2 mouse_direction_vector;
          n = (if norm_factor = 0 then (0, 0)
               else (fst mouse_direction_vector / norm_factor,
                     snd mouse_direction_vector / norm_factor))
      in Inr (Some [(fst n + 1) * 0.5, (snd n + 1) * 0.5, 0], None))"

text \<open>
  \<^verbatim>\<open>FLOWMAP_OT_3d_viewport.get_direction_color\<close>: the mode dispatcher. It reads the
  previous position from the operator (\<^verbatim>\<open>self.mouse_prev_position\<close>), not from its
  third argument.
\<close>

definition viewport_3d_get_direction_color ::
  "context3d \<Rightarrow> tri_object \<Rightarrow> pixel \<Rightarrow> pixel \<Rightarrow> pixel \<Rightarrow> error + (real list option \<times> vec3 option)" where
  "viewport_3d_get_direction_color ctx tri_obj self_mouse_prev_position mouse_position mouse_prev_position =
     (let area_pos = (fst mouse_position - area_x ctx, snd mouse_position - area_y ctx);
          area_prev_pos = (fst self_mouse_prev_position - area_x ctx,
                           snd self_mouse_prev_position - area_y ctx)
      in case flowmap_space_type ctx of
           uv_space \<Rightarrow> get_uv_space_direction_color ctx area_pos area_prev_pos tri_obj
         | object_space \<Rightarrow> get_obj_space_direction_color ctx area_pos area_prev_pos tri_obj
         | world_space \<Rightarrow> get_world_space_direction_color ctx area_pos area_prev_pos tri_obj)"

text \<open>The two operator classes, and the method each binds to \<open>get_direction_color\<close>.\<close>

datatype operator_class = FLOWMAP_OT_image_editor | FLOWMAP_OT_3d_viewport

definition get_direction_color ::
  "operator_class \<Rightarrow> context3d \<Rightarrow> tri_object \<Rightarrow> pixel \<Rightarrow> pixel \<Rightarrow> pixel
   \<Rightarrow> error + (real list option \<times> vec3 option)" where
  "get_direction_color cls ctx tri_obj self_mouse_prev_position mouse_position mouse_prev_position =
     (case cls of
        FLOWMAP_OT_image_editor \<Rightarrow>
          image_editor_get_direction_color mouse_position mouse_prev_position
      | FLOWMAP_OT_3d_viewport \<Rightarrow>
          viewport_3d_get_direction_color ctx tri_obj self_mouse_prev_position
            mouse_position mouse_prev_position)"

section \<open>Painting one dot\<close>

text \<open>
  \<^verbatim>\<open>paint_a_dot(mouse_position, event, location)\<close> builds one stroke sample and
  hands it to the host's paint operator of the object's mode: always in texture paint,
  only with a location in vertex paint, and not at all in any other mode.
\<close>

datatype object_mode = VERTEX_PAINT | TEXTURE_PAINT | OTHER_MODE

record paint_settings =
  mode :: object_mode
  use_pressure_strength :: bool
  use_pressure_size :: bool
  use_unified_strength :: bool
  unified_size :: real
  paint_area_x :: int
  paint_area_y :: int

record stroke =
  stroke_location :: vec3
  stroke_mouse :: vec2
  stroke_pressure :: real
  stroke_size :: real

datatype paint_op = image_paint stroke | vertex_paint stroke

definition paint_a_dot :: "paint_settings \<Rightarrow> vec2 \<Rightarrow> real \<Rightarrow> vec3 option \<Rightarrow> paint_op option" where
  "paint_a_dot ps mouse_position event_pressure location =
     (if mode ps \<noteq> VERTEX_PAINT \<and> mode ps \<noteq> TEXTURE_PAINT then None
      else
        let pressure0 = (if use_unified_strength ps then 1 else 0);
            pressure = (if use_pressure_strength ps then pressure0 * event_pressure else pressure0);
            size = (if use_pressure_size ps then unified_size ps * event_pressure
                    else unified_size ps);
            st = \<lparr>stroke_location = (case location of None \<Rightarrow> (0, 0, 0) | Some l \<Rightarrow> l),
                  stroke_mouse = (fst mouse_position - real_of_int (paint_area_x ps),
                                  snd mouse_position - real_of_int (paint_area_y ps)),
                  stroke_pressure = pressure,
                  stroke_size = size\<rparr>
        in if mode ps = TEXTURE_PAINT then Some (image_paint st)
           else if mode ps = VERTEX_PAINT \<and> location \<noteq> None then Some (vertex_paint st)
           else None)"

section \<open>The modal operator: stroke interpolator\<close>

datatype event_type = LEFTMOUSE | MOUSEMOVE | ESC | OTHER_EVENT
datatype event_value = PRESS | RELEASE | OTHER_VALUE
datatype retcode = RUNNING_MODAL | FINISHED | PASS_THROUGH

record event =
  ev_type :: event_type
  ev_value :: event_value
  mouse_x :: int
  mouse_y :: int
  mouse_region_x :: int
  mouse_region_y :: int
  ev_pressure :: real

text \<open>
  The operator's own state (\<open>cursor\<close> is the position of the registered draw handler,
  if one is registered), and the state of the host the operator writes to: the brush
  colour of the unified paint settings, the calls of \<open>paint_a_dot\<close> in the order they
  were made, and the data blocks. Registering and removing the draw handler is the
  host's work, in an image editor or a 3D view, and is taken not to fail.
\<close>

record stroke_state =
  furthest_position :: pixel
  mouse_prev_position :: pixel
  pressing :: bool
  cursor :: "pixel option"

record dot_call =
  call_mouse_position :: vec2
  call_event_pressure :: real
  call_location :: "vec3 option"

record host_state =
  brush_color :: "pyfloat list"
  dots :: "dot_call list"
  data :: bpy_data

definition clear_cursor :: "stroke_state \<Rightarrow> stroke_state" where
  "clear_cursor st = (case cursor st of None \<Rightarrow> st | Some _ \<Rightarrow> st\<lparr>cursor := None\<rparr>)"

definition redraw_cursor :: "pixel \<Rightarrow> stroke_state \<Rightarrow> stroke_state" where
  "redraw_cursor pos st = (clear_cursor st)\<lparr>cursor := Some pos\<rparr>"

text \<open>
  The sub-step loop:
  \<^verbatim>\<open>
  substep_count = substeps_int
  while substep_count > 0:
      lerp_mix = 1 / (substeps_int) * substep_count
      lerp_paint_position = numpy.array([
          lerp(lerp_mix, self.mouse_prev_position[0], mouse_position[0]),
          lerp(lerp_mix, self.mouse_prev_position[1], mouse_position[1])])
      paint_a_dot(mouse_position=lerp_paint_position, event=event, location=location)
      substep_count = substep_count - 1
  \<close>
\<close>

function substep_loop ::
  "int \<Rightarrow> int \<Rightarrow> pixel \<Rightarrow> pixel \<Rightarrow> real \<Rightarrow> vec3 option \<Rightarrow> error + dot_call list" where
  "substep_loop substeps_int substep_count prev_position mouse_position event_pressure location =
     (if substep_count > 0 then
        (if substeps_int = 0 then Inl ZeroDivisionError
         else
           (case substep_loop substeps_int (substep_count - 1) prev_position mouse_position
                   event_pressure location of
              Inl e \<Rightarrow> Inl e
            | Inr rest \<Rightarrow>
                Inr (\<lparr>call_mouse_position =
                        (lerp (1 / real_of_int substeps_int * real_of_int substep_count)
                           (real_of_int (fst prev_position)) (real_of_int (fst mouse_position)),
                         lerp (1 / real_of_int substeps_int * real_of_int substep_count)
                           (real_of_int (snd prev_position)) (real_of_int (snd mouse_position))),
                      call_event_pressure = event_pressure,
                      call_location = location\<rparr> # rest)))
      else Inr [])"
  by pat_completeness auto
termination
  by (relation "measure (\<lambda>(n, k, _). nat k)") auto

declare substep_loop.simps [simp del]

text \<open>
  The block under \<^verbatim>\<open>if self.pressing:\<close>. \<open>distance\<close> is a numpy float and the
  spacing a Python float, so for a spacing of zero the quotient is \<open>inf\<close> or \<open>nan\<close>
  and \<^verbatim>\<open>int\<close> raises OverflowError or ValueError.
\<close>

definition paint_dots ::
  "bool \<Rightarrow> real \<Rightarrow> real \<Rightarrow> pixel \<Rightarrow> pixel \<Rightarrow> real \<Rightarrow> vec3 option \<Rightarrow> error + dot_call list" where
  "paint_dots is_pressing distance spacing prev_position mouse_position event_pressure location =
     (if is_pressing then
        (if spacing = 0 then Inl (if distance = 0 then ValueError else OverflowError)
         else
           let substeps_float = distance / spacing;
               substeps_int = py_int substeps_float
           in if distance > 2 * spacing then
                substep_loop substeps_int substeps_int prev_position mouse_position
                  event_pressure location
              else Inr [\<lparr>call_mouse_position =
                           (real_of_int (fst mouse_position), real_of_int (snd mouse_position)),
                         call_event_pressure = event_pressure,
                         call_location = location\<rparr>])
      else Inr [])"

definition set_brush_color :: "pyfloat list option \<Rightarrow> host_state \<Rightarrow> host_state" where
  "set_brush_color direction_color host =
     (case direction_color of
        None \<Rightarrow> host
      | Some c \<Rightarrow> if \<not> list_ex isnan c then host\<lparr>brush_color := c\<rparr> else host)"

text \<open>
  The branch of \<open>modal\<close> for \<^verbatim>\<open>MOUSEMOVE\<close> and \<^verbatim>\<open>LEFTMOUSE\<close>. An exception
  leaves the assignments made before it in place, so the result carries the state
  next to the outcome. \<open>gdc\<close> is the operator's \<^verbatim>\<open>get_direction_color\<close>, which
  the base class leaves to its subclasses.
  \<^verbatim>\<open>
  mouse_position = numpy.array([event.mouse_x, event.mouse_y])
  distance = numpy.linalg.norm(self.furthest_position - mouse_position)
  if distance >= bpy.context.scene.flowmap_brush_spacing:
      self.furthest_position = mouse_position
      direction_color, location = self.get_direction_color(
          context, mouse_position, self.mouse_prev_position)
      if not direction_color is None:
          if not any(numpy.isnan(val) for val in direction_color):
              bpy.context.scene.tool_settings.unified_paint_settings.color = direction_color
      if self.pressing:
          substeps_float = distance / bpy.context.scene.flowmap_brush_spacing
          substeps_int = int(substeps_float)
          if distance > 2 * bpy.context.scene.flowmap_brush_spacing:
              (the sub-step loop)
          else:
              paint_a_dot(mouse_position=mouse_position, event=event, location=location)
      self.mouse_prev_position = mouse_position
  self.redraw_cursor((event.mouse_region_x, event.mouse_region_y))
  return {'RUNNING_MODAL'}
  \<close>
\<close>

type_synonym direction_method =
  "stroke_state \<Rightarrow> pixel \<Rightarrow> pixel \<Rightarrow> error + (pyfloat list option \<times> vec3 option)"

definition position_update ::
  "direction_method \<Rightarrow> real \<Rightarrow> event \<Rightarrow> stroke_state \<Rightarrow> host_state
   \<Rightarrow> (error + retcode) \<times> stroke_state \<times> host_state" where
  "position_update gdc spacing ev st host =
     (let mouse_position = (mouse_x ev, mouse_y ev);
          distance = norm2 (psub (furthest_position st) mouse_position)
      in if distance \<ge> spacing then
           (let st1 = st\<lparr>furthest_position := mouse_position\<rparr>
            in case gdc st1 mouse_position (mouse_prev_position st1) of
                 Inl e \<Rightarrow> (Inl e, st1, host)
               | Inr (direction_color, location) \<Rightarrow>
                   (let host1 = set_brush_color direction_color host
                    in case paint_dots (pressing st1) distance spacing (mouse_prev_position st1)
                              mouse_position (ev_pressure ev) location of
                         Inl e \<Rightarrow> (Inl e, st1, host1)
                       | Inr calls \<Rightarrow>
                           (Inr RUNNING_MODAL,
                            redraw_cursor (mouse_region_x ev, mouse_region_y ev)
                              (st1\<lparr>mouse_prev_position := mouse_position\<rparr>),
                            host1\<lparr>dots := dots host1 @ calls\<rparr>)))
         else (Inr RUNNING_MODAL,
               redraw_cursor (mouse_region_x ev, mouse_region_y ev) st, host))"

text \<open>\<^verbatim>\<open>FlowmapOperator.modal\<close>; \<open>cleanup\<close> is the subclass's method.\<close>

definition modal ::
  "direction_method \<Rightarrow> (bpy_data \<Rightarrow> error + bpy_data) \<Rightarrow> real \<Rightarrow> event \<Rightarrow> stroke_state \<Rightarrow> host_state
   \<Rightarrow> (error + retcode) \<times> stroke_state \<times> host_state" where
  "modal gdc cleanup spacing ev st host =
     (if ev_type ev = LEFTMOUSE \<and> ev_value ev = PRESS then
        (Inr RUNNING_MODAL,
         st\<lparr>furthest_position := (mouse_x ev, mouse_y ev), pressing := True\<rparr>, host)
      else if ev_type ev = LEFTMOUSE \<and> ev_value ev = RELEASE then
        (Inr RUNNING_MODAL, st\<lparr>pressing := False\<rparr>, host)
      else if ev_type ev = MOUSEMOVE \<or> ev_type ev = LEFTMOUSE then
        position_update gdc spacing ev st host
      else if ev_type ev = ESC then
        (let host1 = host\<lparr>brush_color := [Fin 0.5, Fin 0.5, Fin 0.5]\<rparr>;
             st1 = clear_cursor st
         in case cleanup (data host1) of
              Inl e \<Rightarrow> (Inl e, st1, host1)
            | Inr d \<Rightarrow> (Inr FINISHED, st1, host1\<lparr>data := d\<rparr>))
      else (Inr PASS_THROUGH, st, host))"

text \<open>
  The methods of the two subclasses: \<open>startup\<close> and \<open>cleanup\<close> do nothing in the image
  editor; in the 3D viewport they build and remove the temporary object.
\<close>

definition cleanup :: "operator_class \<Rightarrow> bpy_data \<Rightarrow> error + bpy_data" where
  "cleanup cls d = (case cls of FLOWMAP_OT_image_editor \<Rightarrow> Inr d
                            | FLOWMAP_OT_3d_viewport \<Rightarrow> remove_temp_obj d)"

definition startup ::
  "operator_class \<Rightarrow> (mesh \<Rightarrow> mesh) \<Rightarrow> host_names \<Rightarrow> name \<Rightarrow> bpy_data
   \<Rightarrow> error + (name option \<times> bpy_data)" where
  "startup cls triangulated hn active_object d =
     (case cls of
        FLOWMAP_OT_image_editor \<Rightarrow> Inr (None, d)
      | FLOWMAP_OT_3d_viewport \<Rightarrow>
          (case triangulate_object triangulated hn active_object d of
             Inl e \<Rightarrow> Inl e
           | Inr (tri_obj, d') \<Rightarrow> Inr (Some tri_obj, d')))"

definition operator_gdc :: "operator_class \<Rightarrow> context3d \<Rightarrow> tri_object \<Rightarrow> direction_method" where
  "operator_gdc cls ctx tri_obj st mouse_position mouse_prev =
     (case get_direction_color cls ctx tri_obj (mouse_prev_position st) mouse_position mouse_prev of
        Inl e \<Rightarrow> Inl e
      | Inr (c, l) \<Rightarrow> Inr (map_option (map Fin) c, l))"

definition operator_modal ::
  "operator_class \<Rightarrow> context3d \<Rightarrow> tri_object \<Rightarrow> real \<Rightarrow> event \<Rightarrow> stroke_state \<Rightarrow> host_state
   \<Rightarrow> (error + retcode) \<times> stroke_state \<times> host_state" where
  "operator_modal cls ctx tri_obj = modal (operator_gdc cls ctx tri_obj) (cleanup cls)"

text \<open>
  The host delivers the events one at a time, in order, for as long as the operator
  answers \<^verbatim>\<open>RUNNING_MODAL\<close> or \<^verbatim>\<open>PASS_THROUGH\<close>; an exception or
  \<^verbatim>\<open>FINISHED\<close> ends the session.
\<close>

fun run ::
  "direction_method \<Rightarrow> (bpy_data \<Rightarrow> error + bpy_data) \<Rightarrow> real \<Rightarrow> event list \<Rightarrow> stroke_state \<Rightarrow> host_state
   \<Rightarrow> (error + retcode) \<times> stroke_state \<times> host_state" where
  "run gdc cl spacing [] st host = (Inr RUNNING_MODAL, st, host)"
| "run gdc cl spacing (ev # evs) st host =
     (case modal gdc cl spacing ev st host of
        (Inr RUNNING_MODAL, st', host') \<Rightarrow> run gdc cl spacing evs st' host'
      | (Inr PASS_THROUGH, st', host') \<Rightarrow> run gdc cl spacing evs st' host'
      | r \<Rightarrow> r)"

text \<open>A position-update event: one that \<open>modal\<close> sends to \<open>position_update\<close>.\<close>

definition is_position_update :: "event \<Rightarrow> bool" where
  "is_position_update ev =
     (ev_type ev = MOUSEMOVE \<or> (ev_type ev = LEFTMOUSE \<and> ev_value ev = OTHER_VALUE))"

text \<open>
  The call of \<open>paint_a_dot\<close> for the fraction \<open>k / n\<close> of the segment from the previous
  position to the new one, by linear interpolation on both axes.
\<close>

definition interpolated_dot :: "int \<Rightarrow> pixel \<Rightarrow> pixel \<Rightarrow> real \<Rightarrow> vec3 option \<Rightarrow> int \<Rightarrow> dot_call" where
  "interpolated_dot n prev_position mouse_position event_pressure location k =
     \<lparr>call_mouse_position =
        (lerp (real_of_int k / real_of_int n)
           (real_of_int (fst prev_position)) (real_of_int (fst mouse_position)),
         lerp (real_of_int k / real_of_int n)
           (real_of_int (snd prev_position)) (real_of_int (snd mouse_position))),
      call_event_pressure = event_pressure,
      call_location = location\<rparr>"

section \<open>A small scene\<close>

text \<open>
  One triangle in the plane \<open>z = 0\<close> whose UV corners are its vertex coordinates, seen
  from above: the pixel \<open>(x, y)\<close> looks down on the point \<open>(x / 100, y / 100)\<close>, the
  ray hits when that point is inside the triangle, and the barycentric transform of a
  point of the triangle to UV space is the point itself. The object \<open>Cube\<close> owns the
  mesh \<open>Cube\<close>; \<open>first_names\<close> and \<open>second_names\<close> are the names the host gives
  to the data blocks of a first and of a second start of the 3D operator.
\<close>

definition identity_matrix :: matrix where
  "identity_matrix = \<lparr>mat_apply = (\<lambda>v. v), mat_inverse = Some (\<lambda>v. v)\<rparr>"

definition example_mesh :: mesh where
  "example_mesh =
     \<lparr>mesh_vertices = [(0, 0, 0), (1, 0, 0), (0, 1, 0)],
      polygons = [\<lparr>poly_vertices = [0, 1, 2], loop_indices = [0, 1, 2]\<rparr>],
      uv_active = Some [(0, 0), (1, 0), (0, 1)]\<rparr>"

definition example_tri_obj :: tri_object where
  "example_tri_obj =
     \<lparr>tri_mesh = example_mesh,
      ray_cast = (\<lambda>origin direction distance.
         (0 \<le> fst origin \<and> 0 \<le> fst (snd origin) \<and> fst origin + fst (snd origin) \<le> 1,
          (fst origin, fst (snd origin), 0), (0, 0, 1), 0))\<rparr>"

definition no_uv_tri_obj :: tri_object where
  "no_uv_tri_obj = example_tri_obj\<lparr>tri_mesh := example_mesh\<lparr>uv_active := None\<rparr>\<rparr>"

definition example_context :: context3d where
  "example_context =
     \<lparr>region_2d_to_vector_3d = (\<lambda>p. (0, 0, - 1)),
      region_2d_to_origin_3d = (\<lambda>p. (real_of_int (fst p) / 100, real_of_int (snd p) / 100, 1)),
      barycentric_transform = (\<lambda>p a1 a2 a3 b1 b2 b3. p),
      active_type = MESH,
      active_matrix_world = identity_matrix,
      flowmap_object = None,
      flowmap_trace_distance = 1000,
      flowmap_space_type = uv_space,
      area_x = 0,
      area_y = 0\<rparr>"

definition example_data :: bpy_data where
  "example_data =
     \<lparr>meshes = [''Cube'' \<mapsto> example_mesh],
      objects = [''Cube'' \<mapsto>
        \<lparr>ob_type = MESH, ob_data = ''Cube'', ob_matrix_world = identity_matrix,
         ob_modifiers = [], ob_linked = True, ob_hidden = False\<rparr>]\<rparr>"

definition first_names :: host_names where
  "first_names = \<lparr>ob_copy_name = ''Cube.001'', data_copy_name = ''Cube.001'',
                   eval_mesh_name = ''Cube.002'', tri_obj_alt_name = ''FLOWMAP_temp_obj.001''\<rparr>"

definition second_names :: host_names where
  "second_names = \<lparr>ob_copy_name = ''Cube.001'', data_copy_name = ''Cube.003'',
                    eval_mesh_name = ''Cube.004'', tri_obj_alt_name = ''FLOWMAP_temp_obj.001''\<rparr>"

definition example_state :: stroke_state where
  "example_state = \<lparr>furthest_position = (0, 0), mouse_prev_position = (0, 0),
                     pressing = True, cursor = None\<rparr>"

definition example_host :: host_state where
  "example_host = \<lparr>brush_color = [Fin 1, Fin 1, Fin 1], dots = [], data = example_data\<rparr>"

definition mouse_move :: "int \<Rightarrow> int \<Rightarrow> event" where
  "mouse_move x y = \<lparr>ev_type = MOUSEMOVE, ev_value = OTHER_VALUE, mouse_x = x, mouse_y = y,
                     mouse_region_x = x, mouse_region_y = y, ev_pressure = 1\<rparr>"

definition release_event :: event where
  "release_event = \<lparr>ev_type = LEFTMOUSE, ev_value = RELEASE, mouse_x = 7, mouse_y = 9,
                     mouse_region_x = 7, mouse_region_y = 9, ev_pressure = 0\<rparr>"

definition esc_event :: event where
  "esc_event = \<lparr>ev_type = ESC, ev_value = PRESS, mouse_x = 0, mouse_y = 0,
                 mouse_region_x = 0, mouse_region_y = 0, ev_pressure = 0\<rparr>"

text \<open>Two direction methods for examples: one that finds no direction, one that returns NaN.\<close>

definition no_direction :: direction_method where
  "no_direction st p q = Inr (None, None)"

definition nan_direction :: direction_method where
  "nan_direction st p q = Inr (Some [NaN, Fin 0, Fin 0], None)"

definition no_cleanup :: "bpy_data \<Rightarrow> error + bpy_data" where
  "no_cleanup d = Inr d"

section \<open>Vectors and norms\<close>

lemma unit_channel_range:
  fixes x n :: real
  assumes "\<bar>x\<bar> \<le> n" "0 < n"
  shows "0 \<le> (x / n + 1) * 0.5 \<and> (x / n + 1) * 0.5 \<le> 1"
proof -
  have "- 1 \<le> x / n" using assms by (simp add: pos_le_divide_eq)
  moreover have "x / n \<le> 1" using assms by (simp add: pos_divide_le_eq)
  ultimately show ?thesis by simp
qed

lemma norm2_nonneg: "0 \<le> norm2 v"
  by (simp add: norm2_def)

lemma norm3_nonneg: "0 \<le> norm3 v"
  by (simp add: norm3_def)

lemma abs_fst_le_norm2: "\<bar>fst v\<bar> \<le> norm2 v"
  unfolding norm2_def by (rule real_le_rsqrt) simp

lemma abs_snd_le_norm2: "\<bar>snd v\<bar> \<le> norm2 v"
  unfolding norm2_def by (rule real_le_rsqrt) simp

lemma abs_x_le_norm3: "\<bar>fst v\<bar> \<le> norm3 v"
  unfolding norm3_def by (rule real_le_rsqrt) simp

lemma abs_y_le_norm3: "\<bar>fst (snd v)\<bar> \<le> norm3 v"
  unfolding norm3_def by (rule real_le_rsqrt) simp

lemma abs_z_le_norm3: "\<bar>snd (snd v)\<bar> \<le> norm3 v"
  unfolding norm3_def by (rule real_le_rsqrt) simp

lemma norm2_axis: "norm2 (x, 0) = \<bar>x\<bar>"
  by (simp add: norm2_def)

lemma norm2_vsub2_self: "norm2 (vsub2 a a) = 0"
  by (simp add: norm2_def vsub2_def)

lemma norm3_vsub3_self: "norm3 (vsub3 a a) = 0"
  by (simp add: norm3_def vsub3_def)

lemma norm2_psub_self: "norm2 (psub a a) = 0"
  by (simp add: norm2_def psub_def)

lemma py_int_nonneg: "0 \<le> x \<Longrightarrow> py_int x = \<lfloor>x\<rfloor>"
  by (simp add: py_int_def)

lemma floor_quotient_ge_two:
  fixes d s :: real
  assumes "0 < s" "2 * s < d"
  shows "2 \<le> \<lfloor>d / s\<rfloor>"
proof -
  have "2 \<le> d / s" using assms by (simp add: pos_le_divide_eq)
  then show ?thesis by (simp add: le_floor_iff)
qed

section \<open>The encoders\<close>

lemma color_of_direction3_range:
  assumes "norm3 v \<noteq> 0"
  shows "list_all (\<lambda>c. 0 \<le> c \<and> c \<le> 1) (color_of_direction3 v (norm3 v))"
proof -
  have pos: "0 < norm3 v" using assms norm3_nonneg[of v] by simp
  show ?thesis
    unfolding color_of_direction3_def
    using unit_channel_range[OF abs_x_le_norm3 pos]
          unit_channel_range[OF abs_y_le_norm3 pos]
          unit_channel_range[OF abs_z_le_norm3 pos]
    by simp
qed

lemma color2_range:
  assumes "norm2 v \<noteq> 0"
  shows "list_all (\<lambda>c. 0 \<le> c \<and> c \<le> 1)
           [(fst v / norm2 v + 1) * 0.5, (snd v / norm2 v + 1) * 0.5, 0]"
proof -
  have pos: "0 < norm2 v" using assms norm2_nonneg[of v] by simp
  show ?thesis
    using unit_channel_range[OF abs_fst_le_norm2 pos]
          unit_channel_range[OF abs_snd_le_norm2 pos]
    by simp
qed

lemma image_editor_range:
  "image_editor_get_direction_color p q = Inr (Some col, loc)
   \<Longrightarrow> list_all (\<lambda>c. 0 \<le> c \<and> c \<le> 1) col"
  using color2_range[of "psub p q"]
  by (auto simp: image_editor_get_direction_color_def Let_def split: if_splits)

lemma uv_range:
  "get_uv_space_direction_color ctx a b t = Inr (Some col, loc)
   \<Longrightarrow> list_all (\<lambda>c. 0 \<le> c \<and> c \<le> 1) col"
  unfolding get_uv_space_direction_color_def
  by (auto simp: Let_def split: sum.splits option.splits prod.splits if_splits
           dest!: color2_range)

lemma obj_range:
  "get_obj_space_direction_color ctx a b t = Inr (Some col, loc)
   \<Longrightarrow> list_all (\<lambda>c. 0 \<le> c \<and> c \<le> 1) col"
  unfolding get_obj_space_direction_color_def
  by (auto simp: Let_def split: sum.splits option.splits prod.splits if_splits
           dest!: color_of_direction3_range)

lemma world_range:
  "get_world_space_direction_color ctx a b t = Inr (Some col, loc)
   \<Longrightarrow> list_all (\<lambda>c. 0 \<le> c \<and> c \<le> 1) col"
  unfolding get_world_space_direction_color_def
  by (auto simp: Let_def split: sum.splits option.splits prod.splits if_splits
           dest!: color_of_direction3_range)

lemma uv_coincident:
  "get_uv_space_direction_color ctx a a t = Inr (None, None)
   \<or> (\<exists>e. get_uv_space_direction_color ctx a a t = Inl e)"
  by (cases "line_trace_for_uv ctx a t")
     (auto simp: get_uv_space_direction_color_def norm2_vsub2_self Let_def split: option.splits)

lemma obj_coincident:
  "get_obj_space_direction_color ctx a a t = Inr (None, None)
   \<or> (\<exists>e. get_obj_space_direction_color ctx a a t = Inl e)"
  by (cases "line_trace_for_pos ctx a t")
     (auto simp: get_obj_space_direction_color_def norm3_vsub3_self Let_def
           split: option.splits sum.splits)

lemma world_coincident:
  "get_world_space_direction_color ctx a a t = Inr (None, None)
   \<or> (\<exists>e. get_world_space_direction_color ctx a a t = Inl e)"
  by (cases "line_trace_for_pos ctx a t")
     (auto simp: get_world_space_direction_color_def norm3_vsub3_self Let_def
           split: option.splits sum.splits)

lemma face_loop_no_uv:
  "uv_active me = None
   \<Longrightarrow> face_loop me mw zs = (if zs = [] then Inr ([], []) else Inl AttributeError)"
  by (cases zs) auto

lemma example_uv_trace:
  "line_trace_for_uv example_context (x, 0) example_tri_obj =
     (if 0 \<le> x \<and> x \<le> 100
      then Inr (Some (real_of_int x / 100, 0, 0), Some (real_of_int x / 100, 0, 0))
      else Inr (None, None))"
  by (simp add: line_trace_for_uv_def obj_ray_cast_def example_context_def example_tri_obj_def
      identity_matrix_def inverted_def vadd3_def vsub3_def Let_def pos_to_uv_co_def example_mesh_def)

text \<open>
  C2, as amended. The three encoders of the 3D viewport (UV, object and world space)
  never produce a colour when the current position is the previous one: the call
  returns \<open>(None, None)\<close> or raises. The screen-space encoder of the image editor does
  produce one: for a zero norm it takes the zero direction and returns the neutral
  colour \<open>(0.5, 0.5, 0)\<close>.
\<close>

theorem coincident_positions:
  "(get_direction_color FLOWMAP_OT_3d_viewport ctx tri_obj p p q = Inr (None, None)
      \<or> (\<exists>e. get_direction_color FLOWMAP_OT_3d_viewport ctx tri_obj p p q = Inl e)) \<and>
   get_direction_color FLOWMAP_OT_image_editor ctx tri_obj s p p = Inr (Some [1 / 2, 1 / 2, 0], None)"
proof
  show "get_direction_color FLOWMAP_OT_3d_viewport ctx tri_obj p p q = Inr (None, None)
      \<or> (\<exists>e. get_direction_color FLOWMAP_OT_3d_viewport ctx tri_obj p p q = Inl e)"
    using uv_coincident obj_coincident world_coincident
    by (cases "flowmap_space_type ctx")
       (simp_all add: get_direction_color_def viewport_3d_get_direction_color_def Let_def)
next
  show "get_direction_color FLOWMAP_OT_image_editor ctx tri_obj s p p = Inr (Some [1 / 2, 1 / 2, 0], None)"
    by (simp add: get_direction_color_def image_editor_get_direction_color_def norm2_psub_self Let_def)
qed

theorem coincident_positions_witness:
  "get_direction_color FLOWMAP_OT_3d_viewport example_context example_tri_obj (10, 0) (10, 0) (10, 0)
     = Inr (None, None) \<and>
   get_direction_color FLOWMAP_OT_image_editor example_context example_tri_obj (10, 0) (10, 0) (10, 0)
     = Inr (Some [1 / 2, 1 / 2, 0], None)"
proof -
  have fields: "flowmap_space_type example_context = uv_space"
    "area_x example_context = 0" "area_y example_context = 0"
    by (simp_all add: example_context_def)
  have "get_direction_color FLOWMAP_OT_3d_viewport example_context example_tri_obj (10, 0) (10, 0) (10, 0)
          \<noteq> Inl e" for e
    by (simp add: get_direction_color_def viewport_3d_get_direction_color_def fields
        get_uv_space_direction_color_def example_uv_trace norm2_vsub2_self Let_def)
  then show ?thesis
    using coincident_positions[of example_context example_tri_obj "(10, 0)" "(10, 0)" "(10, 0)"]
    by blast
qed

text \<open>
  The claim C2 as it was stated fails for the screen-space encoder: at the
  position \<open>(3, 4)\<close>, current and previous, it returns a colour.
\<close>

theorem screen_space_coincident_counterexample:
  "get_direction_color FLOWMAP_OT_image_editor example_context example_tri_obj (3, 4) (3, 4) (3, 4)
     = Inr (Some [1 / 2, 1 / 2, 0], None)"
  by (simp add: get_direction_color_def image_editor_get_direction_color_def norm2_psub_self Let_def)

text \<open>
  C3. Whenever an encoder, of either operator and in any space, returns a colour,
  every channel of the colour lies between 0 and 1 (over the real numbers).
\<close>

theorem encoder_channels_in_unit_range:
  assumes "get_direction_color cls ctx tri_obj s p q = Inr (Some col, loc)"
  shows "\<forall>c \<in> set col. 0 \<le> c \<and> c \<le> 1"
proof -
  have "list_all (\<lambda>c. 0 \<le> c \<and> c \<le> 1) col"
  proof (cases cls)
    case FLOWMAP_OT_image_editor
    with assms show ?thesis
      by (simp add: get_direction_color_def image_editor_range)
  next
    case FLOWMAP_OT_3d_viewport
    with assms show ?thesis
      by (cases "flowmap_space_type ctx")
         (auto simp: get_direction_color_def viewport_3d_get_direction_color_def Let_def
               dest: uv_range obj_range world_range)
  qed
  then show ?thesis by (simp add: list_all_iff)
qed

theorem encoder_channels_in_unit_range_witness:
  "get_direction_color FLOWMAP_OT_3d_viewport (example_context\<lparr>flowmap_space_type := world_space\<rparr>)
     example_tri_obj (0, 0) (10, 0) (0, 0) = Inr (Some [1, 1 / 2, 1 / 2], Some (1 / 10, 0, 0)) \<and>
   list_all (\<lambda>c. 0 \<le> c \<and> c \<le> 1) [1, 1 / 2, 1 / 2 :: real]"
proof -
  have h: "get_direction_color FLOWMAP_OT_3d_viewport
             (example_context\<lparr>flowmap_space_type := world_space\<rparr>)
             example_tri_obj (0, 0) (10, 0) (0, 0)
           = Inr (Some [1, 1 / 2, 1 / 2], Some (1 / 10, 0, 0))"
    by (simp add: get_direction_color_def viewport_3d_get_direction_color_def
        get_world_space_direction_color_def line_trace_for_pos_def obj_ray_cast_def
        example_context_def example_tri_obj_def identity_matrix_def inverted_def vadd3_def
        vsub3_def Let_def norm3_def color_of_direction3_def)
  show ?thesis
    using encoder_channels_in_unit_range[OF h] h by (simp add: list_all_iff)
qed

text \<open>
  C6, as amended. On a mesh with no active UV layer the UV lookup for a surface hit
  does not return \<open>None\<close>: \<open>pos_to_uv_co\<close> raises, AttributeError for a face with
  at least one corner and IndexError otherwise, and for a mesh as active object and
  a ray that hits, the error leaves \<open>line_trace_for_uv\<close> and the UV-space encoder.
\<close>

theorem uv_lookup_without_uv_layer:
  assumes nouv: "uv_active (tri_mesh tri_obj) = None"
  shows "pos_to_uv_co ctx tri_obj mw world_pos face_index =
           (if face_index < length (polygons (tri_mesh tri_obj)) \<and>
               zip (poly_vertices (polygons (tri_mesh tri_obj) ! face_index))
                   (loop_indices (polygons (tri_mesh tri_obj) ! face_index)) \<noteq> []
            then Inl AttributeError else Inl IndexError) \<and>
         (active_type ctx = MESH \<and>
          obj_ray_cast ctx area_pos tri_obj (active_matrix_world ctx) = Inr (Some hit, normal, Some face)
          \<longrightarrow> (\<exists>e. line_trace_for_uv ctx area_pos tri_obj = Inl e) \<and>
              (\<exists>e. get_uv_space_direction_color ctx area_pos area_prev_pos tri_obj = Inl e))"
proof (intro conjI impI)
  show pos: "\<And>mw world_pos face_index. pos_to_uv_co ctx tri_obj mw world_pos face_index =
           (if face_index < length (polygons (tri_mesh tri_obj)) \<and>
               zip (poly_vertices (polygons (tri_mesh tri_obj) ! face_index))
                   (loop_indices (polygons (tri_mesh tri_obj) ! face_index)) \<noteq> []
            then Inl AttributeError else Inl IndexError)"
    by (simp add: pos_to_uv_co_def face_loop_no_uv[OF nouv] Let_def)
  assume hit: "active_type ctx = MESH \<and>
          obj_ray_cast ctx area_pos tri_obj (active_matrix_world ctx) = Inr (Some hit, normal, Some face)"
  have "\<exists>e. pos_to_uv_co ctx tri_obj (active_matrix_world ctx)
               (mat_apply (active_matrix_world ctx) hit) face = Inl e"
    by (simp add: pos)
  then show lt: "\<exists>e. line_trace_for_uv ctx area_pos tri_obj = Inl e"
    using hit by (auto simp: line_trace_for_uv_def Let_def)
  then show "\<exists>e. get_uv_space_direction_color ctx area_pos area_prev_pos tri_obj = Inl e"
    by (auto simp: get_uv_space_direction_color_def)
qed

lemma no_uv_ray:
  "obj_ray_cast example_context (10, 0) no_uv_tri_obj (active_matrix_world example_context)
     = Inr (Some (1 / 10, 0, 0), Some (0, 0, 1), Some 0)"
  by (simp add: obj_ray_cast_def example_context_def example_tri_obj_def no_uv_tri_obj_def
      identity_matrix_def inverted_def vadd3_def vsub3_def Let_def)

theorem uv_lookup_without_uv_layer_witness:
  "uv_active (tri_mesh no_uv_tri_obj) = None \<and>
   active_type example_context = MESH \<and>
   obj_ray_cast example_context (10, 0) no_uv_tri_obj (active_matrix_world example_context)
     = Inr (Some (1 / 10, 0, 0), Some (0, 0, 1), Some 0) \<and>
   pos_to_uv_co example_context no_uv_tri_obj identity_matrix (1 / 10, 0, 0) 0 = Inl AttributeError \<and>
   (\<exists>e. line_trace_for_uv example_context (10, 0) no_uv_tri_obj = Inl e) \<and>
   (\<exists>e. get_uv_space_direction_color example_context (10, 0) (0, 0) no_uv_tri_obj = Inl e)"
proof -
  have nouv: "uv_active (tri_mesh no_uv_tri_obj) = None"
    by (simp add: no_uv_tri_obj_def)
  have mesh: "active_type example_context = MESH"
    by (simp add: example_context_def)
  have face: "polygons (tri_mesh no_uv_tri_obj)
              = [\<lparr>poly_vertices = [0, 1, 2], loop_indices = [0, 1, 2]\<rparr>]"
    by (simp add: no_uv_tri_obj_def example_mesh_def)
  show ?thesis
    using uv_lookup_without_uv_layer[OF nouv, of example_context identity_matrix "(1 / 10, 0, 0)" 0
            "(10, 0)" "(1 / 10, 0, 0)" "Some (0, 0, 1)" 0 "(0, 0)"]
          nouv mesh no_uv_ray
    by (simp add: face)
qed

text \<open>
  The claim C6 as it was stated fails: in the small scene without its UV layer the
  ray through the pixel \<open>(10, 0)\<close> hits, and the lookup raises AttributeError.
\<close>

theorem uv_lookup_without_uv_layer_counterexample:
  "uv_active (tri_mesh no_uv_tri_obj) = None \<and>
   line_trace_for_uv example_context (10, 0) no_uv_tri_obj = Inl AttributeError"
  by (simp add: line_trace_for_uv_def no_uv_ray[simplified example_context_def] example_context_def pos_to_uv_co_def
      no_uv_tri_obj_def example_mesh_def example_tri_obj_def Let_def
      obj_ray_cast_def identity_matrix_def inverted_def vadd3_def vsub3_def)

text \<open>
  C10. When the active object is not a mesh, \<open>line_trace_for_pos\<close> returns a bare
  \<open>None\<close>, not a pair, and the object-space and the world-space encoder, which unpack
  its result into two values, raise TypeError.
\<close>

theorem non_mesh_active_object:
  assumes "active_type ctx \<noteq> MESH"
  shows "line_trace_for_pos ctx area_pos tri_obj = Inr None \<and>
         get_obj_space_direction_color ctx area_pos area_prev_pos tri_obj = Inl TypeError \<and>
         get_world_space_direction_color ctx area_pos area_prev_pos tri_obj = Inl TypeError"
  using assms
  by (simp add: line_trace_for_pos_def get_obj_space_direction_color_def
      get_world_space_direction_color_def Let_def)

theorem non_mesh_active_object_witness:
  "active_type (example_context\<lparr>active_type := OTHER_OBJECT\<rparr>) \<noteq> MESH \<and>
   line_trace_for_pos (example_context\<lparr>active_type := OTHER_OBJECT\<rparr>) (10, 0) example_tri_obj = Inr None \<and>
   get_obj_space_direction_color (example_context\<lparr>active_type := OTHER_OBJECT\<rparr>) (10, 0) (0, 0)
     example_tri_obj = Inl TypeError \<and>
   get_world_space_direction_color (example_context\<lparr>active_type := OTHER_OBJECT\<rparr>) (10, 0) (0, 0)
     example_tri_obj = Inl TypeError"
proof -
  have h: "active_type (example_context\<lparr>active_type := OTHER_OBJECT\<rparr>) \<noteq> MESH"
    by simp
  show ?thesis
    using non_mesh_active_object[OF h, of "(10, 0)" example_tri_obj "(0, 0)"] h by simp
qed

section \<open>The stroke interpolator\<close>

lemma substep_loop_nonpos:
  "k \<le> 0 \<Longrightarrow> substep_loop n k prev pos pr loc = Inr []"
  by (subst substep_loop.simps) simp

lemma upto_rev_step: "0 \<le> k \<Longrightarrow> rev [1..k + 1] = (k + 1) # rev [1..k]"
  by (simp add: upto_rec2)

lemma substep_loop_nat:
  assumes "n \<noteq> 0"
  shows "substep_loop n (int m) prev pos pr loc
         = Inr (map (interpolated_dot n prev pos pr loc) (rev [1..int m]))"
proof (induction m)
  case 0
  show ?case by (simp add: substep_loop_nonpos)
next
  case (Suc m)
  have step: "rev [1..int (Suc m)] = int (Suc m) # rev [1..int m]"
    using upto_rev_step[of "int m"] by (simp add: add.commute)
  have "substep_loop n (int (Suc m)) prev pos pr loc
        = (case substep_loop n (int m) prev pos pr loc of
             Inl e \<Rightarrow> Inl e
           | Inr rest \<Rightarrow> Inr (interpolated_dot n prev pos pr loc (int (Suc m)) # rest))"
    using assms
    by (subst substep_loop.simps) (simp add: interpolated_dot_def split: sum.split)
  then show ?case
    using Suc.IH step by simp
qed

lemma substep_loop_eq:
  assumes "n \<noteq> 0"
  shows "substep_loop n k prev pos pr loc
         = Inr (map (interpolated_dot n prev pos pr loc) (rev [1..k]))"
proof (cases "0 \<le> k")
  case True
  then show ?thesis using substep_loop_nat[OF assms, of "nat k" prev pos pr loc] by simp
next
  case False
  then show ?thesis by (simp add: substep_loop_nonpos)
qed

lemma paint_dots_fast:
  assumes "0 < spacing" "2 * spacing < distance"
  shows "paint_dots True distance spacing prev pos pr loc
         = Inr (map (interpolated_dot \<lfloor>distance / spacing\<rfloor> prev pos pr loc)
                  (rev [1..\<lfloor>distance / spacing\<rfloor>]))"
proof -
  have two: "2 \<le> \<lfloor>distance / spacing\<rfloor>" by (rule floor_quotient_ge_two[OF assms])
  have nonneg: "0 \<le> distance / spacing" using assms by simp
  have ne: "\<lfloor>distance / spacing\<rfloor> \<noteq> 0" using two by linarith
  show ?thesis
    using assms substep_loop_eq[OF ne]
    by (simp add: paint_dots_def py_int_nonneg[OF nonneg] Let_def)
qed

lemma set_brush_color_dots: "dots (set_brush_color c host) = dots host"
  by (simp add: set_brush_color_def split: option.splits)

lemma set_brush_color_cases:
  "brush_color (set_brush_color c host) =
     (case c of None \<Rightarrow> brush_color host
      | Some col \<Rightarrow> if list_ex isnan col then brush_color host else col)"
  by (simp add: set_brush_color_def split: option.splits)

lemma modal_position_update:
  "is_position_update ev \<Longrightarrow> modal gdc cl spacing ev st host = position_update gdc spacing ev st host"
  by (auto simp: modal_def is_position_update_def)

lemma example_move_52:
  "is_position_update (mouse_move 52 0)"
  "mouse_x (mouse_move 52 0) = 52" "mouse_y (mouse_move 52 0) = 0"
  "ev_pressure (mouse_move 52 0) = 1"
  by (simp_all add: mouse_move_def is_position_update_def)

text \<open>
  C1, as amended. A position update while the button is held, at a distance from
  \<open>furthest_position\<close> of more than twice the spacing, for a spacing greater than zero
  and a direction computation that returns, makes exactly
  \<open>n = floor (distance / spacing)\<close> calls of
  \<open>paint_a_dot\<close>, at the fractions \<open>n / n\<close>, ..., \<open>2 / n\<close>, \<open>1 / n\<close>, in this order, of
  the segment from \<open>mouse_prev_position\<close> to the new position, by linear interpolation
  on both axes.
\<close>

theorem modal_fast_move_dots:
  assumes upd: "is_position_update ev"
    and pr: "pressing st"
    and sp: "0 < spacing"
    and fast: "2 * spacing < norm2 (psub (furthest_position st) (mouse_x ev, mouse_y ev))"
    and dir: "gdc (st\<lparr>furthest_position := (mouse_x ev, mouse_y ev)\<rparr>) (mouse_x ev, mouse_y ev)
                (mouse_prev_position st) = Inr (direction_color, location)"
  shows "fst (modal gdc cl spacing ev st host) = Inr RUNNING_MODAL \<and>
         dots (snd (snd (modal gdc cl spacing ev st host)))
           = dots host @
             map (interpolated_dot
                    \<lfloor>norm2 (psub (furthest_position st) (mouse_x ev, mouse_y ev)) / spacing\<rfloor>
                    (mouse_prev_position st) (mouse_x ev, mouse_y ev) (ev_pressure ev) location)
               (rev [1..\<lfloor>norm2 (psub (furthest_position st) (mouse_x ev, mouse_y ev)) / spacing\<rfloor>]) \<and>
         length (dots (snd (snd (modal gdc cl spacing ev st host))))
           = length (dots host)
             + nat \<lfloor>norm2 (psub (furthest_position st) (mouse_x ev, mouse_y ev)) / spacing\<rfloor>"
proof -
  let ?pos = "(mouse_x ev, mouse_y ev)"
  let ?d = "norm2 (psub (furthest_position st) ?pos)"
  have ge: "spacing \<le> ?d" using sp fast by simp
  have two: "2 \<le> \<lfloor>?d / spacing\<rfloor>" by (rule floor_quotient_ge_two[OF sp fast])
  have pu: "position_update gdc spacing ev st host =
        (Inr RUNNING_MODAL,
         redraw_cursor (mouse_region_x ev, mouse_region_y ev)
           (st\<lparr>furthest_position := ?pos, mouse_prev_position := ?pos\<rparr>),
         (set_brush_color direction_color host)
           \<lparr>dots := dots host @ map (interpolated_dot \<lfloor>?d / spacing\<rfloor> (mouse_prev_position st) ?pos
                                     (ev_pressure ev) location) (rev [1..\<lfloor>?d / spacing\<rfloor>])\<rparr>)"
    using ge dir pr paint_dots_fast[OF sp fast] set_brush_color_dots
    by (simp add: position_update_def Let_def)
  have len: "length (rev [1..\<lfloor>?d / spacing\<rfloor>]) = nat \<lfloor>?d / spacing\<rfloor>"
    using two by simp
  show ?thesis
    using len by (simp add: modal_position_update[OF upd] pu del: length_rev length_upto)
qed

theorem modal_fast_move_dots_witness:
  "is_position_update (mouse_move 52 0) \<and> pressing example_state \<and> (0 :: real) < 10 \<and>
   2 * 10 < norm2 (psub (furthest_position example_state) (52, 0)) \<and>
   dots (snd (snd (modal no_direction no_cleanup 10 (mouse_move 52 0) example_state example_host)))
     = map (\<lambda>x. \<lparr>call_mouse_position = (x, 0), call_event_pressure = 1, call_location = None\<rparr>)
         [52, 208 / 5, 156 / 5, 104 / 5, 52 / 5] \<and>
   length (dots (snd (snd (modal no_direction no_cleanup 10 (mouse_move 52 0) example_state
                             example_host)))) = 5"
proof -
  have st: "pressing example_state" "furthest_position example_state = (0, 0)"
    "mouse_prev_position example_state = (0, 0)"
    by (simp_all add: example_state_def)
  have d: "norm2 (psub (0, 0) (52, 0)) = 52"
    by (simp add: psub_def norm2_axis)
  have fast: "2 * 10 < norm2 (psub (furthest_position example_state)
                (mouse_x (mouse_move 52 0), mouse_y (mouse_move 52 0)))"
    by (simp add: st example_move_52 d)
  have dir: "no_direction (example_state\<lparr>furthest_position :=
                 (mouse_x (mouse_move 52 0), mouse_y (mouse_move 52 0))\<rparr>)
               (mouse_x (mouse_move 52 0), mouse_y (mouse_move 52 0))
               (mouse_prev_position example_state) = Inr (None, None)"
    by (simp add: no_direction_def)
  have fl: "\<lfloor>52 / 10 :: real\<rfloor> = 5" by simp
  have up: "rev [1..5] = [5, 4, 3, 2, 1 :: int]" by (simp add: upto_rec1)
  have sp: "(0 :: real) < 10" by simp
  show ?thesis
    using modal_fast_move_dots[where gdc = no_direction and cl = no_cleanup and host = example_host
            and direction_color = None and location = None, OF example_move_52(1) st(1) sp fast dir]
    by (simp add: st example_move_52 d fl up interpolated_dot_def lerp_def example_host_def)
qed

lemma position_update_brush:
  "brush_color (snd (snd (position_update gdc spacing ev st host))) =
     (if spacing \<le> norm2 (psub (furthest_position st) (mouse_x ev, mouse_y ev)) then
        (case gdc (st\<lparr>furthest_position := (mouse_x ev, mouse_y ev)\<rparr>) (mouse_x ev, mouse_y ev)
                (mouse_prev_position st) of
           Inl e \<Rightarrow> brush_color host
         | Inr (direction_color, location) \<Rightarrow> brush_color (set_brush_color direction_color host))
      else brush_color host)"
  by (simp add: position_update_def Let_def split: sum.splits prod.splits)

text \<open>
  C4. On a position update the brush colour becomes the computed direction colour
  only when the distance reaches the spacing, the direction method returns a colour
  and no channel of that colour is NaN; in every other case it keeps its value. For
  every event, a brush colour with a NaN channel after the event is the colour that
  was there before it: \<open>modal\<close> never writes one.
\<close>

theorem modal_brush_color_guard:
  "(is_position_update ev \<longrightarrow>
      brush_color (snd (snd (modal gdc cl spacing ev st host))) =
        (if spacing \<le> norm2 (psub (furthest_position st) (mouse_x ev, mouse_y ev)) then
           (case gdc (st\<lparr>furthest_position := (mouse_x ev, mouse_y ev)\<rparr>) (mouse_x ev, mouse_y ev)
                   (mouse_prev_position st) of
              Inr (Some col, location) \<Rightarrow> if list_ex isnan col then brush_color host else col
            | _ \<Rightarrow> brush_color host)
         else brush_color host)) \<and>
   (list_ex isnan (brush_color (snd (snd (modal gdc cl spacing ev st host))))
      \<longrightarrow> brush_color (snd (snd (modal gdc cl spacing ev st host))) = brush_color host)"
proof (intro conjI impI)
  assume upd: "is_position_update ev"
  show "brush_color (snd (snd (modal gdc cl spacing ev st host))) =
        (if spacing \<le> norm2 (psub (furthest_position st) (mouse_x ev, mouse_y ev)) then
           (case gdc (st\<lparr>furthest_position := (mouse_x ev, mouse_y ev)\<rparr>) (mouse_x ev, mouse_y ev)
                   (mouse_prev_position st) of
              Inr (Some col, location) \<Rightarrow> if list_ex isnan col then brush_color host else col
            | _ \<Rightarrow> brush_color host)
         else brush_color host)"
    unfolding modal_position_update[OF upd] position_update_brush
    by (simp add: set_brush_color_cases split: sum.splits prod.splits option.splits)
next
  assume nan: "list_ex isnan (brush_color (snd (snd (modal gdc cl spacing ev st host))))"
  show "brush_color (snd (snd (modal gdc cl spacing ev st host))) = brush_color host"
  proof (cases "ev_type ev = ESC")
    case True
    then have "brush_color (snd (snd (modal gdc cl spacing ev st host)))
               = [Fin 0.5, Fin 0.5, Fin 0.5]"
      by (simp add: modal_def Let_def split: sum.splits)
    with nan show ?thesis by simp
  next
    case False
    then have "modal gdc cl spacing ev st host = position_update gdc spacing ev st host
               \<or> snd (snd (modal gdc cl spacing ev st host)) = host"
      by (auto simp: modal_def)
    then show ?thesis
    proof
      assume eq: "modal gdc cl spacing ev st host = position_update gdc spacing ev st host"
      show ?thesis
        using nan unfolding eq position_update_brush
        by (auto simp: set_brush_color_cases split: sum.splits prod.splits option.splits if_splits)
    next
      assume "snd (snd (modal gdc cl spacing ev st host)) = host"
      then show ?thesis by simp
    qed
  qed
qed

theorem modal_brush_color_guard_witness:
  "is_position_update (mouse_move 52 0) \<and>
   (10 :: real) \<le> norm2 (psub (furthest_position example_state) (52, 0)) \<and>
   nan_direction (example_state\<lparr>furthest_position := (52, 0)\<rparr>) (52, 0)
     (mouse_prev_position example_state) = Inr (Some [NaN, Fin 0, Fin 0], None) \<and>
   brush_color (snd (snd (modal nan_direction no_cleanup 10 (mouse_move 52 0) example_state
                            example_host))) = brush_color example_host"
proof -
  have d: "norm2 (psub (furthest_position example_state) (52, 0)) = 52"
    by (simp add: example_state_def psub_def norm2_axis)
  show ?thesis
    using modal_brush_color_guard[of "mouse_move 52 0" nan_direction no_cleanup 10
            example_state example_host]
    by (simp add: example_move_52 d nan_direction_def)
qed

text \<open>
  C8. A button-release event only sets \<open>pressing\<close> to false: the previous position,
  the furthest position and the host's state are what they were.
\<close>

theorem modal_release_frame:
  assumes "ev_type ev = LEFTMOUSE" "ev_value ev = RELEASE"
  shows "modal gdc cl spacing ev st host = (Inr RUNNING_MODAL, st\<lparr>pressing := False\<rparr>, host) \<and>
         mouse_prev_position (fst (snd (modal gdc cl spacing ev st host))) = mouse_prev_position st \<and>
         furthest_position (fst (snd (modal gdc cl spacing ev st host))) = furthest_position st \<and>
         pressing (fst (snd (modal gdc cl spacing ev st host))) = False"
  using assms by (simp add: modal_def)

theorem modal_release_frame_witness:
  "ev_type release_event = LEFTMOUSE \<and> ev_value release_event = RELEASE \<and>
   modal no_direction no_cleanup 10 release_event
     (example_state\<lparr>furthest_position := (3, 4), mouse_prev_position := (1, 2)\<rparr>) example_host
   = (Inr RUNNING_MODAL,
      \<lparr>furthest_position = (3, 4), mouse_prev_position = (1, 2), pressing = False, cursor = None\<rparr>,
      example_host)"
proof -
  have h: "ev_type release_event = LEFTMOUSE" "ev_value release_event = RELEASE"
    by (simp_all add: release_event_def)
  show ?thesis
    using modal_release_frame[OF h, of no_direction no_cleanup 10
            "example_state\<lparr>furthest_position := (3, 4), mouse_prev_position := (1, 2)\<rparr>" example_host]
          h
    by (simp add: example_state_def)
qed

lemma position_update_below_spacing:
  assumes "norm2 (psub (furthest_position st) (mouse_x ev, mouse_y ev)) < spacing"
  shows "position_update gdc spacing ev st host
         = (Inr RUNNING_MODAL, redraw_cursor (mouse_region_x ev, mouse_region_y ev) st, host)"
  using assms by (simp add: position_update_def Let_def)

lemma redraw_cursor_fields:
  "furthest_position (redraw_cursor p st) = furthest_position st"
  "mouse_prev_position (redraw_cursor p st) = mouse_prev_position st"
  "pressing (redraw_cursor p st) = pressing st"
  by (simp_all add: redraw_cursor_def clear_cursor_def split: option.splits)

lemma mouse_move_fields:
  "is_position_update (mouse_move x y)"
  "mouse_x (mouse_move x y) = x" "mouse_y (mouse_move x y) = y"
  "mouse_region_x (mouse_move x y) = x" "mouse_region_y (mouse_move x y) = y"
  "ev_pressure (mouse_move x y) = 1"
  by (simp_all add: mouse_move_def is_position_update_def)

text \<open>
  C5, as amended. For a sequence of position updates each of which is nearer to
  \<open>furthest_position\<close> than the spacing, no dot is emitted, the host's state is
  untouched, and \<open>furthest_position\<close>, \<open>mouse_prev_position\<close> and \<open>pressing\<close> keep
  their values over the whole sequence.
\<close>

theorem slow_moves_emit_nothing:
  assumes "\<forall>ev \<in> set evs. is_position_update ev \<and>
             norm2 (psub (furthest_position st) (mouse_x ev, mouse_y ev)) < spacing"
  shows "fst (run gdc cl spacing evs st host) = Inr RUNNING_MODAL \<and>
         snd (snd (run gdc cl spacing evs st host)) = host \<and>
         furthest_position (fst (snd (run gdc cl spacing evs st host))) = furthest_position st \<and>
         mouse_prev_position (fst (snd (run gdc cl spacing evs st host))) = mouse_prev_position st \<and>
         pressing (fst (snd (run gdc cl spacing evs st host))) = pressing st"
  using assms
proof (induction evs arbitrary: st)
  case Nil
  show ?case by simp
next
  case (Cons ev evs)
  let ?st1 = "redraw_cursor (mouse_region_x ev, mouse_region_y ev) st"
  have upd: "is_position_update ev"
    and near: "norm2 (psub (furthest_position st) (mouse_x ev, mouse_y ev)) < spacing"
    using Cons.prems by simp_all
  have step: "modal gdc cl spacing ev st host = (Inr RUNNING_MODAL, ?st1, host)"
    using position_update_below_spacing[OF near] by (simp add: modal_position_update[OF upd])
  have rest: "\<forall>e \<in> set evs. is_position_update e \<and>
                norm2 (psub (furthest_position ?st1) (mouse_x e, mouse_y e)) < spacing"
    using Cons.prems by (simp add: redraw_cursor_fields)
  show ?case
    using Cons.IH[OF rest] by (simp add: step redraw_cursor_fields)
qed

theorem slow_moves_emit_nothing_witness:
  "norm2 (psub (furthest_position example_state) (6, 0)) < 10 \<and>
   norm2 (psub (furthest_position example_state) (- 8, 0)) < 10 \<and>
   fst (run no_direction no_cleanup 10 [mouse_move 6 0, mouse_move (- 8) 0] example_state example_host)
     = Inr RUNNING_MODAL \<and>
   dots (snd (snd (run no_direction no_cleanup 10 [mouse_move 6 0, mouse_move (- 8) 0]
                     example_state example_host))) = [] \<and>
   furthest_position (fst (snd (run no_direction no_cleanup 10 [mouse_move 6 0, mouse_move (- 8) 0]
                                  example_state example_host))) = (0, 0)"
proof -
  have d: "norm2 (psub (furthest_position example_state) (6, 0)) = 6"
    "norm2 (psub (furthest_position example_state) (- 8, 0)) = 8"
    by (simp_all add: example_state_def psub_def norm2_axis)
  have h: "\<forall>ev \<in> set [mouse_move 6 0, mouse_move (- 8) 0]. is_position_update ev \<and>
             norm2 (psub (furthest_position example_state) (mouse_x ev, mouse_y ev)) < 10"
    by (simp add: mouse_move_fields d)
  show ?thesis
    using slow_moves_emit_nothing[OF h, of no_direction no_cleanup example_host] d
    by (simp add: example_state_def example_host_def)
qed

text \<open>
  The claim C5 as it was stated, with the distances taken between consecutive
  positions, fails: the distance that \<open>modal\<close> compares with the spacing is the one
  from \<open>furthest_position\<close>, which adds up over small steps. With a spacing of 10 and
  the button held at \<open>(0, 0)\<close>, the moves to \<open>(6, 0)\<close> and then to \<open>(12, 0)\<close> are 6
  pixels each, and the second one emits a dot and moves \<open>furthest_position\<close>.
\<close>

theorem slow_moves_counterexample:
  "norm2 (psub (0, 0) (6, 0)) < 10 \<and> norm2 (psub (6, 0) (12, 0)) < 10 \<and>
   furthest_position example_state = (0, 0) \<and> pressing example_state \<and>
   dots (snd (snd (run (operator_gdc FLOWMAP_OT_image_editor example_context example_tri_obj)
                     (cleanup FLOWMAP_OT_image_editor) 10
                     [mouse_move 6 0, mouse_move 12 0] example_state example_host)))
     = [\<lparr>call_mouse_position = (12, 0), call_event_pressure = 1, call_location = None\<rparr>] \<and>
   furthest_position (fst (snd (run (operator_gdc FLOWMAP_OT_image_editor example_context example_tri_obj)
                     (cleanup FLOWMAP_OT_image_editor) 10
                     [mouse_move 6 0, mouse_move 12 0] example_state example_host))) = (12, 0)"
proof -
  let ?gdc = "operator_gdc FLOWMAP_OT_image_editor example_context example_tri_obj"
  let ?cl = "cleanup FLOWMAP_OT_image_editor"
  let ?st1 = "redraw_cursor (6, 0) example_state"
  have st: "furthest_position example_state = (0, 0)" "mouse_prev_position example_state = (0, 0)"
    "pressing example_state"
    by (simp_all add: example_state_def)
  have d1: "norm2 (psub (0, 0) (6, 0)) = 6" by (simp add: psub_def norm2_axis)
  have d2: "norm2 (psub (6, 0) (12, 0)) = 6" by (simp add: psub_def norm2_axis)
  have d3: "norm2 (psub (0, 0) (12, 0)) = 12" by (simp add: psub_def norm2_axis)
  have d4: "norm2 (psub (12, 0) (0, 0)) = 12" by (simp add: psub_def norm2_axis)
  have step1: "modal ?gdc ?cl 10 (mouse_move 6 0) example_state example_host
               = (Inr RUNNING_MODAL, ?st1, example_host)"
    by (simp add: modal_position_update mouse_move_fields position_update_def st d1 Let_def)
  have col: "?gdc (?st1\<lparr>furthest_position := (12, 0)\<rparr>) (12, 0) (0, 0)
             = Inr (Some [Fin 1, Fin (1 / 2), Fin 0], None)"
    by (simp add: operator_gdc_def get_direction_color_def image_editor_get_direction_color_def
        Let_def psub_def norm2_axis)
  have step2: "modal ?gdc ?cl 10 (mouse_move 12 0) ?st1 example_host
               = (Inr RUNNING_MODAL,
                  redraw_cursor (12, 0) (?st1\<lparr>furthest_position := (12, 0),
                                              mouse_prev_position := (12, 0)\<rparr>),
                  example_host\<lparr>brush_color := [Fin 1, Fin (1 / 2), Fin 0],
                    dots := [\<lparr>call_mouse_position = (12, 0), call_event_pressure = 1,
                               call_location = None\<rparr>]\<rparr>)"
    by (simp add: modal_position_update mouse_move_fields position_update_def st d3 Let_def
        redraw_cursor_fields col set_brush_color_def paint_dots_def py_int_def example_host_def)
  show ?thesis
    by (simp add: d1 d2 st step1 step2 redraw_cursor_fields)
qed

lemma no_uv_trace_52:
  "line_trace_for_uv example_context (52, 0) no_uv_tri_obj = Inl AttributeError"
  by (simp add: line_trace_for_uv_def example_context_def pos_to_uv_co_def
      no_uv_tri_obj_def example_mesh_def example_tri_obj_def Let_def
      obj_ray_cast_def identity_matrix_def inverted_def vadd3_def vsub3_def)

text \<open>
  The claim C1 as it was stated, for every position update while the button is held
  at more than twice the spacing, fails at two inputs that meet its conditions and
  emit no dot. With a spacing of zero, which the property's minimum allows, the
  quotient is infinite and \<^verbatim>\<open>int\<close> raises OverflowError. In the 3D viewport on a
  mesh without an active UV layer, at a spacing of 10, the direction computation
  raises AttributeError before any dot is painted. Both times \<open>modal\<close> ends with the
  exception and the list of dots is as empty as before.
\<close>

theorem modal_fast_move_dots_counterexample:
  "is_position_update (mouse_move 52 0) \<and> pressing example_state \<and>
   2 * 0 < norm2 (psub (furthest_position example_state) (52, 0)) \<and>
   2 * 10 < norm2 (psub (furthest_position example_state) (52, 0)) \<and>
   uv_active (tri_mesh no_uv_tri_obj) = None \<and>
   modal no_direction no_cleanup 0 (mouse_move 52 0) example_state example_host
     = (Inl OverflowError, example_state\<lparr>furthest_position := (52, 0)\<rparr>, example_host) \<and>
   operator_modal FLOWMAP_OT_3d_viewport example_context no_uv_tri_obj 10 (mouse_move 52 0)
       example_state example_host
     = (Inl AttributeError, example_state\<lparr>furthest_position := (52, 0)\<rparr>, example_host) \<and>
   dots example_host = []"
proof -
  have st: "pressing example_state" "furthest_position example_state = (0, 0)"
    "mouse_prev_position example_state = (0, 0)"
    by (simp_all add: example_state_def)
  have d: "norm2 (psub (0, 0) (52, 0)) = 52"
    by (simp add: psub_def norm2_axis)
  have fields: "flowmap_space_type example_context = uv_space"
    "area_x example_context = 0" "area_y example_context = 0"
    by (simp_all add: example_context_def)
  have zero: "modal no_direction no_cleanup 0 (mouse_move 52 0) example_state example_host
     = (Inl OverflowError, example_state\<lparr>furthest_position := (52, 0)\<rparr>, example_host)"
    by (simp add: modal_position_update mouse_move_fields position_update_def st d Let_def
        no_direction_def set_brush_color_def paint_dots_def)
  have gdc: "operator_gdc FLOWMAP_OT_3d_viewport example_context no_uv_tri_obj
               (example_state\<lparr>furthest_position := (52, 0)\<rparr>) (52, 0) (0, 0)
             = Inl AttributeError"
    by (simp add: operator_gdc_def get_direction_color_def viewport_3d_get_direction_color_def
        fields get_uv_space_direction_color_def no_uv_trace_52 Let_def)
  have nouv: "operator_modal FLOWMAP_OT_3d_viewport example_context no_uv_tri_obj 10
                (mouse_move 52 0) example_state example_host
     = (Inl AttributeError, example_state\<lparr>furthest_position := (52, 0)\<rparr>, example_host)"
    by (simp add: operator_modal_def modal_position_update mouse_move_fields position_update_def
        st d Let_def gdc)
  have layer: "uv_active (tri_mesh no_uv_tri_obj) = None"
    by (simp add: no_uv_tri_obj_def)
  have empty: "dots example_host = []"
    by (simp add: example_host_def)
  show ?thesis
    by (simp add: mouse_move_fields st d zero nouv layer empty)
qed

section \<open>The temporary object over a session\<close>

text \<open>
  \<open>remove_temp_obj\<close> never raises: each removal is guarded by the lookup of the same
  name. It removes the mesh registered as \<^verbatim>\<open>FLOWMAP_temp_mesh\<close> and the object
  registered as \<^verbatim>\<open>FLOWMAP_temp_obj\<close>, leaves every other data block alone, and
  changes nothing when it runs a second time.
\<close>

lemma remove_temp_obj_result:
  "remove_temp_obj d =
     Inr (d\<lparr>meshes := (meshes d)(''FLOWMAP_temp_mesh'' := None),
            objects := (objects d)(''FLOWMAP_temp_obj'' := None)\<rparr>)"
proof -
  have m: "meshes d ''FLOWMAP_temp_mesh'' = None
           \<Longrightarrow> (meshes d)(''FLOWMAP_temp_mesh'' := None) = meshes d"
    by (rule fun_upd_idem) simp
  have ob: "objects d ''FLOWMAP_temp_obj'' = None
            \<Longrightarrow> (objects d)(''FLOWMAP_temp_obj'' := None) = objects d"
    by (rule fun_upd_idem) simp
  show ?thesis
    by (cases "meshes d ''FLOWMAP_temp_mesh''"; cases "objects d ''FLOWMAP_temp_obj''")
       (simp_all add: remove_temp_obj_def remove_temp_mesh_step_def remove_temp_object_step_def
          meshes_getitem_def objects_getitem_def meshes_remove_def objects_remove_def m ob)
qed

lemma remove_temp_obj_never_raises: "\<exists>d'. remove_temp_obj d = Inr d'"
  by (simp add: remove_temp_obj_result)

lemma remove_temp_obj_twice:
  "remove_temp_obj d = Inr d' \<Longrightarrow> remove_temp_obj d' = Inr d'"
  by (auto simp: remove_temp_obj_result)

lemma remove_temp_obj_removes_named:
  "remove_temp_obj d = Inr d'
   \<Longrightarrow> meshes d' ''FLOWMAP_temp_mesh'' = None \<and> objects d' ''FLOWMAP_temp_obj'' = None"
  by (auto simp: remove_temp_obj_result)

lemma remove_temp_obj_keeps_other_meshes:
  "remove_temp_obj d = Inr d' \<Longrightarrow> n \<noteq> ''FLOWMAP_temp_mesh'' \<Longrightarrow> meshes d' n = meshes d n"
  by (auto simp: remove_temp_obj_result)

text \<open>
  The mesh that \<open>triangulate_object\<close> builds is registered under the name the host
  gives it. Unless that name happens to be \<^verbatim>\<open>FLOWMAP_temp_mesh\<close>, the lookup in
  \<open>remove_temp_obj\<close> does not find the mesh, and it is still there after the cleanup.
\<close>

lemma triangulate_object_mesh:
  assumes "triangulate_object tr hn t d = Inr (tri, d1)"
  shows "meshes d1 (eval_mesh_name hn) \<noteq> None"
  using assms
  by (auto simp: triangulate_object_def remove_temp_obj_result objects_new_def objects_remove_def
        Let_def split: option.splits sum.splits if_splits)

lemma triangulated_mesh_survives_cleanup:
  assumes "triangulate_object tr hn t d = Inr (tri, d1)"
    and "eval_mesh_name hn \<noteq> ''FLOWMAP_temp_mesh''"
    and "remove_temp_obj d1 = Inr d2"
  shows "meshes d2 (eval_mesh_name hn) \<noteq> None"
  using triangulate_object_mesh[OF assms(1)] remove_temp_obj_keeps_other_meshes[OF assms(3) assms(2)]
  by simp

lemma modal_esc:
  "ev_type ev = ESC \<Longrightarrow>
   modal gdc cl spacing ev st host =
     (case cl (data host) of
        Inl e \<Rightarrow> (Inl e, clear_cursor st, host\<lparr>brush_color := [Fin 0.5, Fin 0.5, Fin 0.5]\<rparr>)
      | Inr d \<Rightarrow> (Inr FINISHED, clear_cursor st,
                  host\<lparr>brush_color := [Fin 0.5, Fin 0.5, Fin 0.5], data := d\<rparr>))"
  by (simp add: modal_def Let_def split: sum.splits)

text \<open>
  A cancel in the 3D viewport finishes without an error, sets the brush colour to
  \<open>(0.5, 0.5, 0.5)\<close>, leaves no data block under the two temporary names, and a second
  cancel changes nothing and raises nothing.
\<close>

lemma cancel_twice:
  assumes "ev_type ev = ESC"
    and "modal gdc (cleanup FLOWMAP_OT_3d_viewport) spacing ev st host = (r, st', host')"
  shows "r = Inr FINISHED \<and> brush_color host' = [Fin 0.5, Fin 0.5, Fin 0.5] \<and>
         meshes (data host') ''FLOWMAP_temp_mesh'' = None \<and>
         objects (data host') ''FLOWMAP_temp_obj'' = None \<and>
         modal gdc (cleanup FLOWMAP_OT_3d_viewport) spacing ev st' host' = (Inr FINISHED, st', host')"
  using assms
  by (auto simp: modal_esc cleanup_def remove_temp_obj_result clear_cursor_def split: option.splits)

text \<open>
  C7, the code at the failing input. The 3D operator starts on the object \<open>Cube\<close>
  and is cancelled with ESC. The cancel finishes, the brush colour is
  \<open>(0.5, 0.5, 0.5)\<close> and the object \<^verbatim>\<open>FLOWMAP_temp_obj\<close> is gone, but the
  triangulated mesh of that object, which the host registered as \<open>Cube.002\<close>, is
  still among the meshes: the claim's removal of the temporary mesh does not happen.
\<close>

theorem cancel_leaves_triangulated_mesh:
  "(case startup FLOWMAP_OT_3d_viewport (\<lambda>m. m) first_names ''Cube'' example_data of
      Inl e \<Rightarrow> False
    | Inr (tri_obj, d1) \<Rightarrow>
        tri_obj = Some ''FLOWMAP_temp_obj'' \<and>
        map_option ob_data (objects d1 ''FLOWMAP_temp_obj'') = Some ''Cube.002'' \<and>
        meshes d1 ''Cube.002'' = Some example_mesh \<and>
        (case operator_modal FLOWMAP_OT_3d_viewport example_context example_tri_obj 10 esc_event
                example_state (example_host\<lparr>data := d1\<rparr>) of
           (r, st', host') \<Rightarrow>
             r = Inr FINISHED \<and>
             brush_color host' = [Fin 0.5, Fin 0.5, Fin 0.5] \<and>
             objects (data host') ''FLOWMAP_temp_obj'' = None \<and>
             meshes (data host') ''FLOWMAP_temp_mesh'' = None \<and>
             meshes (data host') ''Cube.002'' = Some example_mesh))"
  by (simp add: startup_def triangulate_object_def remove_temp_obj_result
      example_data_def first_names_def objects_new_def objects_remove_def Let_def
      operator_modal_def modal_esc esc_event_def cleanup_def example_host_def)

text \<open>
  C9, the code at the failing input. The 3D operator starts on \<open>Cube\<close>, is
  cleaned up, and starts again. After the second start the meshes of both starts are
  registered, the copies \<open>Cube.001\<close> and \<open>Cube.003\<close> and the triangulated meshes
  \<open>Cube.002\<close> and \<open>Cube.004\<close>; no mesh is named \<^verbatim>\<open>FLOWMAP_temp_mesh\<close>. Repeated
  starts accumulate temporary meshes, against the claim.
\<close>

theorem restart_accumulates_meshes:
  "(case startup FLOWMAP_OT_3d_viewport (\<lambda>m. m) first_names ''Cube'' example_data of
      Inl e \<Rightarrow> False
    | Inr (tri_obj1, d1) \<Rightarrow>
        (case cleanup FLOWMAP_OT_3d_viewport d1 of
           Inl e \<Rightarrow> False
         | Inr d2 \<Rightarrow>
             (case startup FLOWMAP_OT_3d_viewport (\<lambda>m. m) second_names ''Cube'' d2 of
                Inl e \<Rightarrow> False
              | Inr (tri_obj2, d3) \<Rightarrow>
                  tri_obj2 = Some ''FLOWMAP_temp_obj'' \<and>
                  map_option ob_data (objects d3 ''FLOWMAP_temp_obj'') = Some ''Cube.004'' \<and>
                  meshes d3 ''FLOWMAP_temp_mesh'' = None \<and>
                  meshes d3 ''Cube.001'' = Some example_mesh \<and>
                  meshes d3 ''Cube.002'' = Some example_mesh \<and>
                  meshes d3 ''Cube.003'' = Some example_mesh \<and>
                  meshes d3 ''Cube.004'' = Some example_mesh)))"
  by (simp add: startup_def triangulate_object_def remove_temp_obj_result
      example_data_def first_names_def second_names_def objects_new_def objects_remove_def Let_def
      cleanup_def)

end
